theory Spec2Isabelle
  imports Complex_Main "HOL-Library.Multiset"
begin

section \<open>Training analyzer: a shallow embedding of \<^verbatim>\<open>training_analyzer_html.py\<close>\<close>

text \<open>
  The development follows the Python source block by block. Conventions of the model:
  \<^item> A Python or numpy float is a \<open>pyfloat\<close>: a real number, or one of the three special
    values \<open>+inf\<close>, \<open>-inf\<close>, \<open>nan\<close>. Binary rounding, the finite range of a double and the
    sign of zero are not represented: a finite float is the real number it denotes.
  \<^item> Text is ASCII text (a \<open>char list\<close>).
  \<^item> A timestamp is an integer count of nanoseconds, as in a \<open>datetime64[ns]\<close> column;
    the missing timestamp \<open>NaT\<close> is \<open>None\<close>.
  \<^item> A raised exception is the \<open>Inl\<close> branch of a sum.
\<close>

subsection \<open>Floats\<close>

datatype pyfloat = Fin real | PInf | NInf | NaN

text \<open>Addition of two floats (IEEE: \<open>inf + -inf\<close> is \<open>nan\<close>).\<close>

fun fadd :: "pyfloat \<Rightarrow> pyfloat \<Rightarrow> pyfloat" where
  "fadd NaN _ = NaN"
| "fadd _ NaN = NaN"
| "fadd (Fin a) (Fin b) = Fin (a + b)"
| "fadd PInf NInf = NaN"
| "fadd NInf PInf = NaN"
| "fadd PInf _ = PInf"
| "fadd _ PInf = PInf"
| "fadd NInf _ = NInf"
| "fadd _ NInf = NInf"

text \<open>Multiplication and division of a float by a finite number \<open>c\<close>; division is only
  used with \<open>c \<noteq> 0\<close> (the source divides by the literal 4, 7, 60, by a positive plan target,
  or by a positive count).\<close>

fun fmulc :: "pyfloat \<Rightarrow> real \<Rightarrow> pyfloat" where
  "fmulc (Fin a) c = Fin (a * c)"
| "fmulc NaN c = NaN"
| "fmulc PInf c = (if 0 < c then PInf else if c < 0 then NInf else NaN)"
| "fmulc NInf c = (if 0 < c then NInf else if c < 0 then PInf else NaN)"

fun fdivc :: "pyfloat \<Rightarrow> real \<Rightarrow> pyfloat" where
  "fdivc (Fin a) c = Fin (a / c)"
| "fdivc NaN c = NaN"
| "fdivc PInf c = (if 0 < c then PInf else if c < 0 then NInf else NaN)"
| "fdivc NInf c = (if 0 < c then NInf else if c < 0 then PInf else NaN)"

text \<open>Comparisons: every comparison with \<open>nan\<close> is false.\<close>

fun flt :: "pyfloat \<Rightarrow> pyfloat \<Rightarrow> bool" where
  "flt NaN _ = False"
| "flt _ NaN = False"
| "flt (Fin a) (Fin b) = (a < b)"
| "flt _ NInf = False"
| "flt PInf _ = False"
| "flt NInf _ = True"
| "flt _ PInf = True"

definition fgt :: "pyfloat \<Rightarrow> pyfloat \<Rightarrow> bool" where
  "fgt x y = flt y x"

fun fge :: "pyfloat \<Rightarrow> pyfloat \<Rightarrow> bool" where
  "fge NaN _ = False"
| "fge _ NaN = False"
| "fge (Fin a) (Fin b) = (b \<le> a)"
| "fge PInf _ = True"
| "fge _ NInf = True"
| "fge NInf _ = False"
| "fge _ PInf = False"


subsection \<open>Text to number: Python's \<open>int\<close>, \<open>float\<close> and \<open>str.split\<close>\<close>

datatype py_error = ValueError | KeyError

definition is_space :: "char \<Rightarrow> bool" where
  "is_space c = (c \<in> set [CHR '' '', CHR 0x09, CHR 0x0A, CHR 0x0B, CHR 0x0C, CHR 0x0D])"

definition strip :: "string \<Rightarrow> string" where
  "strip s = rev (dropWhile is_space (rev (dropWhile is_space s)))"

definition is_digit :: "char \<Rightarrow> bool" where
  "is_digit c = (c \<in> set ''0123456789'')"

definition digit_val :: "char \<Rightarrow> nat" where
  "digit_val c = of_char c - 48"

text \<open>A run of digits in which single underscores may separate digits (\<open>1_000\<close>); the
  result is the run without the underscores.\<close>

fun digit_run :: "string \<Rightarrow> string option" where
  "digit_run [] = None"
| "digit_run [c] = (if is_digit c then Some [c] else None)"
| "digit_run (c # d # cs) =
     (if is_digit c
      then (if d = CHR ''_'' then map_option (Cons c) (digit_run cs)
            else map_option (Cons c) (digit_run (d # cs)))
      else None)"

definition nat_of_digits :: "string \<Rightarrow> nat" where
  "nat_of_digits ds = foldl (\<lambda>a c. 10 * a + digit_val c) 0 ds"

text \<open>\<open>int(s)\<close> for a string, base 10: surrounding whitespace, one optional sign, a digit
  run; anything else raises \<open>ValueError\<close>.\<close>

definition py_int :: "string \<Rightarrow> py_error + int" where
  "py_int s =
     (case strip s of
        [] \<Rightarrow> Inl ValueError
      | c # cs \<Rightarrow>
          (if c = CHR ''-'' then
             (case digit_run cs of None \<Rightarrow> Inl ValueError
              | Some ds \<Rightarrow> Inr (- int (nat_of_digits ds)))
           else if c = CHR ''+'' then
             (case digit_run cs of None \<Rightarrow> Inl ValueError
              | Some ds \<Rightarrow> Inr (int (nat_of_digits ds)))
           else
             (case digit_run (c # cs) of None \<Rightarrow> Inl ValueError
              | Some ds \<Rightarrow> Inr (int (nat_of_digits ds)))))"

text \<open>\<open>float(s)\<close> first checks the underscores of the whole text (each one between two
  digits) and drops them.\<close>

fun underscores_ok :: "char \<Rightarrow> string \<Rightarrow> bool" where
  "underscores_ok prev [] = (prev \<noteq> CHR ''_'')"
| "underscores_ok prev (c # cs) =
     ((if c = CHR ''_'' then is_digit prev else (prev = CHR ''_'' \<longrightarrow> is_digit c))
      \<and> underscores_ok c cs)"

definition drop_underscores :: "string \<Rightarrow> string option" where
  "drop_underscores s =
     (if underscores_ok (CHR 0x00) s then Some (filter (\<lambda>c. c \<noteq> CHR ''_'') s) else None)"

definition lower :: "char \<Rightarrow> char" where
  "lower c =
     (if (65::nat) \<le> of_char c \<and> (of_char c :: nat) \<le> 90 then char_of (of_char c + (32::nat)) else c)"

text \<open>The decimal grammar of \<open>float\<close>: digits, an optional point with more digits (at least
  one digit on one side of the point), an optional exponent \<open>e\<close> with optional sign and at
  least one digit.\<close>

definition parse_exponent :: "string \<Rightarrow> int option" where
  "parse_exponent s =
     (case s of
        [] \<Rightarrow> Some 0
      | e # r \<Rightarrow>
          (if e = CHR ''e'' \<or> e = CHR ''E'' then
             (case r of
                [] \<Rightarrow> None
              | g # ds \<Rightarrow>
                  (if g = CHR ''-'' then
                     (if ds \<noteq> [] \<and> list_all is_digit ds then Some (- int (nat_of_digits ds)) else None)
                   else if g = CHR ''+'' then
                     (if ds \<noteq> [] \<and> list_all is_digit ds then Some (int (nat_of_digits ds)) else None)
                   else
                     (if list_all is_digit r then Some (int (nat_of_digits r)) else None)))
           else None))"

definition scale10 :: "nat \<Rightarrow> int \<Rightarrow> real" where
  "scale10 m e = (if 0 \<le> e then real m * 10 ^ nat e else real m / 10 ^ nat (- e))"

definition parse_decimal :: "string \<Rightarrow> real option" where
  "parse_decimal s =
     (let ip = takeWhile is_digit s; r1 = dropWhile is_digit s;
          fp = (case r1 of [] \<Rightarrow> [] | c # r \<Rightarrow> if c = CHR ''.'' then takeWhile is_digit r else []);
          r2 = (case r1 of [] \<Rightarrow> [] | c # r \<Rightarrow> if c = CHR ''.'' then dropWhile is_digit r else r1)
      in if ip = [] \<and> fp = [] then None
         else (case parse_exponent r2 of
                 None \<Rightarrow> None
               | Some e \<Rightarrow> Some (scale10 (nat_of_digits (ip @ fp)) (e - int (length fp)))))"

definition parse_unsigned :: "string \<Rightarrow> pyfloat option" where
  "parse_unsigned s =
     (let l = map lower s in
      if l = ''inf'' \<or> l = ''infinity'' then Some PInf
      else if l = ''nan'' then Some NaN
      else map_option Fin (parse_decimal s))"

fun fneg :: "pyfloat \<Rightarrow> pyfloat" where
  "fneg (Fin a) = Fin (- a)"
| "fneg PInf = NInf"
| "fneg NInf = PInf"
| "fneg NaN = NaN"

definition py_float :: "string \<Rightarrow> py_error + pyfloat" where
  "py_float s =
     (case drop_underscores (strip s) of
        None \<Rightarrow> Inl ValueError
      | Some [] \<Rightarrow> Inl ValueError
      | Some (c # cs) \<Rightarrow>
          (if c = CHR ''-'' then
             (case parse_unsigned cs of None \<Rightarrow> Inl ValueError | Some v \<Rightarrow> Inr (fneg v))
           else if c = CHR ''+'' then
             (case parse_unsigned cs of None \<Rightarrow> Inl ValueError | Some v \<Rightarrow> Inr v)
           else
             (case parse_unsigned (c # cs) of None \<Rightarrow> Inl ValueError | Some v \<Rightarrow> Inr v)))"

text \<open>\<open>s.split(sep)\<close> with a one-character separator: never an empty list.\<close>

fun split_on :: "char \<Rightarrow> string \<Rightarrow> string list" where
  "split_on sep [] = [[]]"
| "split_on sep (c # cs) =
     (if c = sep then [] # split_on sep cs
      else (case split_on sep cs of
              [] \<Rightarrow> [[c]]
            | p # ps \<Rightarrow> (c # p) # ps))"

subsection \<open>\<open>_clean_data\<close>: duration to minutes\<close>

text \<open>The body of the \<open>try\<close> in \<open>time_to_minutes\<close>. A cell of the \<open>Time\<close> column is its
  text, or \<open>None\<close> when \<open>pd.isna\<close> holds. The operands are evaluated left to right, so the
  first failing conversion decides the exception.\<close>

definition time_to_minutes_try :: "string option \<Rightarrow> py_error + pyfloat" where
  "time_to_minutes_try time_str =
     (case time_str of
        None \<Rightarrow> Inr (Fin 0)
      | Some t \<Rightarrow>
          (case split_on (CHR '':'') t of
             [h, m, s] \<Rightarrow>
               (case py_int h of Inl e \<Rightarrow> Inl e | Inr hv \<Rightarrow>
                case py_int m of Inl e \<Rightarrow> Inl e | Inr mv \<Rightarrow>
                case py_float s of Inl e \<Rightarrow> Inl e | Inr sv \<Rightarrow>
                  Inr (fadd (Fin (real_of_int (hv * 60 + mv))) (fdivc sv 60)))
           | [m, s] \<Rightarrow>
               (case py_int m of Inl e \<Rightarrow> Inl e | Inr mv \<Rightarrow>
                case py_float s of Inl e \<Rightarrow> Inl e | Inr sv \<Rightarrow>
                  Inr (fadd (Fin (real_of_int mv)) (fdivc sv 60)))
           | _ \<Rightarrow> Inr (Fin 0)))"

text \<open>The bare \<open>except\<close> turns every exception into the result 0.\<close>

definition time_to_minutes :: "string option \<Rightarrow> pyfloat" where
  "time_to_minutes time_str =
     (case time_to_minutes_try time_str of Inl _ \<Rightarrow> Fin 0 | Inr v \<Rightarrow> v)"

subsection \<open>The activity table\<close>

text \<open>A table (a pandas \<open>DataFrame\<close>) is its rows in order together with the presence of the
  three optional columns. A row of the export as \<open>read_csv\<close> and \<open>to_datetime\<close> deliver it:
  \<open>Distance\<close> and \<open>Calories\<close> are the cell's text (what \<open>astype(str)\<close> yields), \<open>Time\<close> is
  text or missing, and the remaining numeric cells are floats with \<open>nan\<close> for a missing or
  (after \<open>to_numeric(errors='coerce')\<close>) non-numeric cell.\<close>

record raw_row =
  raw_Date :: int
  raw_Activity_Type :: string
  raw_Distance :: string
  raw_Calories :: string
  raw_Time :: "string option"
  raw_Total_Ascent :: pyfloat
  raw_Total_Descent :: pyfloat
  raw_Avg_HR :: pyfloat
  raw_Max_HR :: pyfloat
  raw_Aerobic_TE :: pyfloat

text \<open>A row after \<open>_clean_data\<close>. \<open>Week\<close> is the column that \<open>_get_weekly_data\<close> adds to its
  private copy; it is \<open>None\<close> in every other table.\<close>

record row =
  Date :: int
  Activity_Type :: string
  Distance :: pyfloat
  Calories :: pyfloat
  Time_Minutes :: pyfloat
  Total_Ascent :: pyfloat
  Total_Descent :: pyfloat
  Avg_HR :: pyfloat
  Max_HR :: pyfloat
  Aerobic_TE :: pyfloat
  Week :: "int option"

record 'r frame =
  rows :: "'r list"
  has_Avg_HR :: bool
  has_Max_HR :: bool
  has_Aerobic_TE :: bool

text \<open>Boolean-mask selection \<open>df[mask]\<close>: the rows that satisfy the mask, in order, with the
  same columns.\<close>

definition select_rows :: "('r \<Rightarrow> bool) \<Rightarrow> 'r frame \<Rightarrow> 'r frame" where
  "select_rows keep f = f\<lparr>rows := filter keep (rows f)\<rparr>"

text \<open>\<open>Series.sum()\<close> and \<open>Series.mean()\<close> skip \<open>nan\<close>; the sum of nothing is 0 and the mean of
  nothing is \<open>nan\<close>.\<close>

definition col_sum :: "pyfloat list \<Rightarrow> pyfloat" where
  "col_sum xs = foldl fadd (Fin 0) (filter (\<lambda>x. x \<noteq> NaN) xs)"

definition col_mean :: "pyfloat list \<Rightarrow> pyfloat" where
  "col_mean xs =
     (let ys = filter (\<lambda>x. x \<noteq> NaN) xs
      in if ys = [] then NaN else fdivc (col_sum ys) (real (length ys)))"

text \<open>\<open>df.tail(n)\<close>: the last \<open>n\<close> rows, all of them when there are fewer.\<close>

definition tail :: "nat \<Rightarrow> 'a list \<Rightarrow> 'a list" where
  "tail n xs = drop (length xs - n) xs"

subsection \<open>Timestamps\<close>

definition ns_per_day :: int where
  "ns_per_day = 86400000000000"

definition timedelta_days :: "int \<Rightarrow> int" where
  "timedelta_days d = d * ns_per_day"

text \<open>\<open>Series.max()\<close> of the \<open>Date\<close> column: \<open>NaT\<close> for an empty table.\<close>

definition date_max :: "row list \<Rightarrow> int option" where
  "date_max rs = (case rs of [] \<Rightarrow> None | r # rs' \<Rightarrow> Some (fold max (map Date rs') (Date r)))"

definition ts_minus_days :: "int option \<Rightarrow> int \<Rightarrow> int option" where
  "ts_minus_days t d = map_option (\<lambda>x. x - timedelta_days d) t"

text \<open>Comparisons of a timestamp with a possibly missing one: false against \<open>NaT\<close>.\<close>

definition ts_ge :: "int \<Rightarrow> int option \<Rightarrow> bool" where
  "ts_ge d c = (case c of None \<Rightarrow> False | Some t \<Rightarrow> t \<le> d)"

definition ts_le :: "int \<Rightarrow> int option \<Rightarrow> bool" where
  "ts_le d c = (case c of None \<Rightarrow> False | Some t \<Rightarrow> d \<le> t)"

text \<open>\<open>Timedelta.days\<close>: whole days, rounded down; \<open>nan\<close> (here \<open>None\<close>) for \<open>NaT\<close>.\<close>

definition td_days :: "int option \<Rightarrow> int option" where
  "td_days t = map_option (\<lambda>x. x div ns_per_day) t"

definition days_to_weeks :: "int option \<Rightarrow> pyfloat" where
  "days_to_weeks d = (case d of None \<Rightarrow> NaN | Some n \<Rightarrow> Fin (real_of_int n / 7))"

text \<open>\<open>dt.to_period('W')\<close>: the Monday-to-Sunday week that contains the timestamp, numbered
  from the week of 1970-01-01 (a Thursday).\<close>

definition week_of :: "int \<Rightarrow> int" where
  "week_of t = (t div ns_per_day + 3) div 7"

subsection \<open>\<open>__init__\<close> and \<open>_clean_data\<close>\<close>

definition remove_commas :: "string \<Rightarrow> string" where
  "remove_commas txt = filter (\<lambda>c. c \<noteq> CHR '','') txt"

text \<open>\<open>astype(float)\<close> on a column of text: \<open>float\<close> of each cell, the first failure aborts.\<close>

fun astype_float :: "string list \<Rightarrow> py_error + pyfloat list" where
  "astype_float [] = Inr []"
| "astype_float (t # ts) =
     (case py_float t of
        Inl e \<Rightarrow> Inl e
      | Inr v \<Rightarrow> (case astype_float ts of Inl e \<Rightarrow> Inl e | Inr vs \<Rightarrow> Inr (v # vs)))"

definition fillna0 :: "pyfloat \<Rightarrow> pyfloat" where
  "fillna0 x = (if x = NaN then Fin 0 else x)"

definition clean_row :: "raw_row \<Rightarrow> pyfloat \<Rightarrow> pyfloat \<Rightarrow> row" where
  "clean_row r d c =
     \<lparr>Date = raw_Date r, Activity_Type = raw_Activity_Type r, Distance = d, Calories = c,
      Time_Minutes = time_to_minutes (raw_Time r),
      Total_Ascent = fillna0 (raw_Total_Ascent r), Total_Descent = fillna0 (raw_Total_Descent r),
      Avg_HR = raw_Avg_HR r, Max_HR = raw_Max_HR r, Aerobic_TE = raw_Aerobic_TE r,
      Week = None\<rparr>"

definition clean_data :: "raw_row frame \<Rightarrow> py_error + row frame" where
  "clean_data f =
     (case astype_float (map (\<lambda>r. remove_commas (raw_Distance r)) (rows f)) of
        Inl e \<Rightarrow> Inl e
      | Inr ds \<Rightarrow>
          (case astype_float (map (\<lambda>r. remove_commas (raw_Calories r)) (rows f)) of
             Inl e \<Rightarrow> Inl e
           | Inr cs \<Rightarrow>
               Inr \<lparr>rows = map (\<lambda>(r, d, c). clean_row r d c) (zip (rows f) (zip ds cs)),
                    has_Avg_HR = has_Avg_HR f, has_Max_HR = has_Max_HR f,
                    has_Aerobic_TE = has_Aerobic_TE f\<rparr>))"

text \<open>\<open>sort_values('Date')\<close>: ascending by date. (The order pandas gives to rows of equal
  date is not fixed by its default algorithm; the model keeps their input order.)\<close>

definition sort_values_Date :: "raw_row frame \<Rightarrow> raw_row frame" where
  "sort_values_Date f = f\<lparr>rows := sort_key raw_Date (rows f)\<rparr>"

subsection \<open>Objects: the analyzer and the tables it refers to\<close>

text \<open>Tables are objects: \<open>self.df\<close> is a reference, \<open>.copy()\<close> makes a new object, and
  \<open>recent['Week'] = ...\<close> changes an object in place. The store is the list of all table
  objects made so far; a reference is an index into it.\<close>

type_synonym store = "row frame list"

record analyzer =
  df :: nat
  marathon_date :: int
  race_date :: int

definition alloc :: "row frame \<Rightarrow> store \<Rightarrow> nat \<times> store" where
  "alloc f h = (length h, h @ [f])"

definition init :: "raw_row frame \<Rightarrow> store \<Rightarrow> py_error + analyzer \<times> store" where
  "init csv h =
     (case clean_data (sort_values_Date csv) of
        Inl e \<Rightarrow> Inl e
      | Inr f \<Rightarrow>
          (let (a, h') = alloc f h
           in Inr (\<lparr>df = a, marathon_date = timedelta_days 20373,
                    race_date = timedelta_days 20569\<rparr>, h')))"

definition get_running_data :: "analyzer \<Rightarrow> store \<Rightarrow> nat \<times> store" where
  "get_running_data self h =
     alloc (select_rows (\<lambda>r. Activity_Type r = ''Running'') (h ! df self)) h"

subsection \<open>\<open>_get_weekly_data\<close> and \<open>_get_chart_data\<close>\<close>

record bucket =
  b_Week :: int
  b_Distance :: pyfloat
  b_Total_Ascent :: pyfloat
  b_Time_Minutes :: pyfloat
  b_Activity_Type :: nat
  b_Avg_HR :: pyfloat
  b_Aerobic_TE :: pyfloat

text \<open>\<open>round(1)\<close>: to one decimal, a tie going to the even neighbour.\<close>

definition rint :: "real \<Rightarrow> int" where
  "rint x =
     (let f = \<lfloor>x\<rfloor>; d = x - real_of_int f
      in if d < 1 / 2 then f else if 1 / 2 < d then f + 1 else if even f then f else f + 1)"

fun round1 :: "pyfloat \<Rightarrow> pyfloat" where
  "round1 (Fin x) = Fin (real_of_int (rint (x * 10)) / 10)"
| "round1 v = v"

definition add_Week :: "row frame \<Rightarrow> row frame" where
  "add_Week f = f\<lparr>rows := map (\<lambda>r. r\<lparr>Week := Some (week_of (Date r))\<rparr>) (rows f)\<rparr>"

text \<open>\<open>groupby('Week').agg({...}).round(1)\<close>: one bucket per week present, in ascending
  week order. Naming an absent column in the aggregation raises \<open>KeyError\<close>.\<close>

definition agg_week :: "row list \<Rightarrow> int \<Rightarrow> bucket" where
  "agg_week rs w =
     (let g = filter (\<lambda>r. Week r = Some w) rs
      in \<lparr>b_Week = w,
          b_Distance = round1 (col_sum (map Distance g)),
          b_Total_Ascent = round1 (col_sum (map Total_Ascent g)),
          b_Time_Minutes = round1 (col_sum (map Time_Minutes g)),
          b_Activity_Type = length g,
          b_Avg_HR = round1 (col_mean (map Avg_HR g)),
          b_Aerobic_TE = round1 (col_sum (map Aerobic_TE g))\<rparr>)"

definition week_keys :: "row list \<Rightarrow> int list" where
  "week_keys rs = sort (remdups (concat (map (\<lambda>r. case Week r of None \<Rightarrow> [] | Some w \<Rightarrow> [w]) rs)))"

definition groupby_Week_agg :: "row frame \<Rightarrow> py_error + bucket list" where
  "groupby_Week_agg f =
     (if has_Avg_HR f \<and> has_Aerobic_TE f
      then Inr (map (agg_week (rows f)) (week_keys (rows f)))
      else Inl KeyError)"

definition get_weekly_data :: "analyzer \<Rightarrow> int \<Rightarrow> store \<Rightarrow> (py_error + bucket list) \<times> store" where
  "get_weekly_data self weeks h =
     (let (running, h1) = get_running_data self h;
          cutoff_date = ts_minus_days (date_max (rows (h1 ! running))) (weeks * 7);
          (recent, h2) = alloc (select_rows (\<lambda>r. ts_ge (Date r) cutoff_date) (h1 ! running)) h1;
          h3 = h2[recent := add_Week (h2 ! recent)]
      in (groupby_Week_agg (h3 ! recent), h3))"

record chart_data =
  weeks :: "int list"
  distances :: "pyfloat list"
  elevations :: "pyfloat list"

definition get_chart_data :: "analyzer \<Rightarrow> store \<Rightarrow> (py_error + chart_data) \<times> store" where
  "get_chart_data self h =
     (case get_weekly_data self 8 h of
        (Inl e, h') \<Rightarrow> (Inl e, h')
      | (Inr weekly, h') \<Rightarrow>
          (Inr \<lparr>weeks = map b_Week weekly, distances = map b_Distance weekly,
                elevations = map b_Total_Ascent weekly\<rparr>, h'))"

subsection \<open>\<open>generate_html_report\<close>: the computed values\<close>

text \<open>Each block of the method is a function of the table \<open>running\<close>. The HTML text that
  the method then formats from these values, and the file it writes, are not modelled.\<close>

record marathon_stats =
  days_since_marathon :: "int option"
  weeks_since :: pyfloat
  post_marathon_runs :: nat
  post_marathon_distance :: pyfloat
  post_marathon_avg :: pyfloat

definition post_marathon_block :: "int \<Rightarrow> row list \<Rightarrow> marathon_stats" where
  "post_marathon_block marathon running =
     (let days = td_days (map_option (\<lambda>m. m - marathon) (date_max running));
          post_marathon = filter (\<lambda>r. marathon < Date r) running
      in \<lparr>days_since_marathon = days,
          weeks_since = days_to_weeks days,
          post_marathon_runs = length post_marathon,
          post_marathon_distance = col_sum (map Distance post_marathon),
          post_marathon_avg =
            (if 0 < length post_marathon then col_mean (map Distance post_marathon) else Fin 0)\<rparr>)"

record status =
  label :: string
  css_class :: string

definition recovery_block :: "pyfloat \<Rightarrow> status" where
  "recovery_block wks =
     (if flt wks (Fin 2) then \<lparr>label = ''EARLY RECOVERY'', css_class = ''warning''\<rparr>
      else if flt wks (Fin 4) then \<lparr>label = ''RECOVERY PHASE'', css_class = ''warning''\<rparr>
      else \<lparr>label = ''RECOVERED'', css_class = ''success''\<rparr>)"

record four_week_stats =
  total_distance :: pyfloat
  total_elevation :: pyfloat
  total_runs :: nat
  avg_distance :: pyfloat
  avg_weekly_dist :: pyfloat
  avg_weekly_elev :: pyfloat

definition recent_4wks :: "row list \<Rightarrow> row list" where
  "recent_4wks running =
     filter (\<lambda>r. ts_ge (Date r) (ts_minus_days (date_max running) 28)) running"

definition four_week_block :: "row list \<Rightarrow> four_week_stats" where
  "four_week_block running =
     (let w = recent_4wks running;
          td = col_sum (map Distance w);
          te = col_sum (map Total_Ascent w);
          n = length w
      in \<lparr>total_distance = td, total_elevation = te, total_runs = n,
          avg_distance = (if 0 < n then fdivc td (real n) else Fin 0),
          avg_weekly_dist = fdivc td 4,
          avg_weekly_elev = fdivc te 4\<rparr>)"

record week_stats =
  week_distance :: pyfloat
  week_elevation :: pyfloat
  week_runs :: nat

definition last_week :: "row list \<Rightarrow> row list" where
  "last_week running =
     (let last_week_end = date_max running;
          last_week_start = ts_minus_days last_week_end 7
      in filter (\<lambda>r. ts_ge (Date r) last_week_start \<and> ts_le (Date r) last_week_end) running)"

definition last_week_block :: "row list \<Rightarrow> week_stats" where
  "last_week_block running =
     (let w = last_week running
      in \<lparr>week_distance = col_sum (map Distance w),
          week_elevation = col_sum (map Total_Ascent w),
          week_runs = length w\<rparr>)"

record target =
  distance :: int
  elevation :: int
  runs :: int

definition plan_targets :: "(int \<times> target) list" where
  "plan_targets =
     [(1, \<lparr>distance = 35, elevation = 200, runs = 4\<rparr>),
      (2, \<lparr>distance = 38, elevation = 250, runs = 4\<rparr>),
      (3, \<lparr>distance = 42, elevation = 280, runs = 4\<rparr>),
      (4, \<lparr>distance = 45, elevation = 300, runs = 4\<rparr>),
      (5, \<lparr>distance = 45, elevation = 400, runs = 4\<rparr>),
      (6, \<lparr>distance = 48, elevation = 450, runs = 4\<rparr>),
      (7, \<lparr>distance = 52, elevation = 550, runs = 4\<rparr>),
      (8, \<lparr>distance = 55, elevation = 600, runs = 4\<rparr>),
      (9, \<lparr>distance = 52, elevation = 650, runs = 4\<rparr>),
      (10, \<lparr>distance = 56, elevation = 700, runs = 4\<rparr>),
      (11, \<lparr>distance = 60, elevation = 850, runs = 5\<rparr>),
      (12, \<lparr>distance = 60, elevation = 900, runs = 5\<rparr>),
      (13, \<lparr>distance = 55, elevation = 750, runs = 4\<rparr>),
      (14, \<lparr>distance = 48, elevation = 600, runs = 4\<rparr>)]"

text \<open>\<open>plan_targets.get(current_week_of_plan, {...})\<close>.\<close>

definition target_for :: "int \<Rightarrow> target" where
  "target_for current_week_of_plan =
     (case map_of plan_targets current_week_of_plan of
        Some t \<Rightarrow> t
      | None \<Rightarrow> \<lparr>distance = 40, elevation = 300, runs = 4\<rparr>)"

text \<open>\<open>(actual / target) * 100 if target > 0 else 0\<close>.\<close>

definition pct :: "pyfloat \<Rightarrow> int \<Rightarrow> pyfloat" where
  "pct actual tgt = (if 0 < tgt then fmulc (fdivc actual (real_of_int tgt)) 100 else Fin 0)"

record plan_comparison =
  plan_target :: target
  dist_pct :: pyfloat
  elev_pct :: pyfloat
  runs_pct :: pyfloat

definition plan_block :: "int \<Rightarrow> week_stats \<Rightarrow> plan_comparison" where
  "plan_block current_week_of_plan ws =
     (let t = target_for current_week_of_plan
      in \<lparr>plan_target = t,
          dist_pct = pct (week_distance ws) (distance t),
          elev_pct = pct (week_elevation ws) (elevation t),
          runs_pct = pct (Fin (real (week_runs ws))) (runs t)\<rparr>)"


datatype icon = Check_Mark | Triangle | Warning_Sign

record assessment =
  assessment_label :: string
  assessment_class :: string
  assessment_icon :: icon

definition assessment_block :: "pyfloat \<Rightarrow> pyfloat \<Rightarrow> assessment" where
  "assessment_block dp ep =
     (if fge dp (Fin 90) \<and> fge ep (Fin 80) then
        \<lparr>assessment_label = ''ON TRACK'', assessment_class = ''success'',
         assessment_icon = Check_Mark\<rparr>
      else if fge dp (Fin 75) then
        \<lparr>assessment_label = ''SLIGHTLY BEHIND'', assessment_class = ''warning'',
         assessment_icon = Triangle\<rparr>
      else
        \<lparr>assessment_label = ''BEHIND TARGET'', assessment_class = ''danger'',
         assessment_icon = Warning_Sign\<rparr>)"

record hr_stats =
  avg_hr :: pyfloat
  max_hr :: pyfloat
  avg_te :: pyfloat
  load_status :: string
  load_class :: string

definition load_block :: "pyfloat \<Rightarrow> string \<times> string" where
  "load_block te =
     (if fgt te (Fin 4.0) then (''HIGH LOAD'', ''danger'')
      else if fgt te (Fin 3.0) then (''MODERATE LOAD'', ''success'')
      else (''LOW LOAD'', ''warning''))"

definition hr_block :: "row frame \<Rightarrow> hr_stats" where
  "hr_block running =
     (let recent_10 = tail 10 (rows running);
          hr = (if has_Avg_HR running then col_mean (map Avg_HR recent_10) else Fin 0);
          mx = (if has_Max_HR running then col_mean (map Max_HR recent_10) else Fin 0)
      in if has_Aerobic_TE running then
           (let te = col_mean (map Aerobic_TE recent_10); (st, cl) = load_block te
            in \<lparr>avg_hr = hr, max_hr = mx, avg_te = te, load_status = st, load_class = cl\<rparr>)
         else
           \<lparr>avg_hr = hr, max_hr = mx, avg_te = Fin 0, load_status = ''N/A'',
            load_class = ''secondary''\<rparr>)"

record countdown =
  days_to_race :: int
  weeks_to_race :: real

definition countdown_block :: "int \<Rightarrow> int \<Rightarrow> countdown" where
  "countdown_block race now =
     (let d = (race - now) div ns_per_day
      in \<lparr>days_to_race = d, weeks_to_race = real_of_int d / 7\<rparr>)"

record phase_info =
  phase :: string
  phase_focus :: string

definition phase_block :: "int \<Rightarrow> phase_info" where
  "phase_block current_week_of_plan =
     (if current_week_of_plan \<le> 4 then
        \<lparr>phase = ''BASE BUILDING'', phase_focus = ''Rebuild volume gradually, introduce hill work''\<rparr>
      else if current_week_of_plan \<le> 8 then
        \<lparr>phase = ''HILL STRENGTH'', phase_focus = ''Progressive hill intervals, downhill practice''\<rparr>
      else if current_week_of_plan \<le> 14 then
        \<lparr>phase = ''SPECIFIC ENDURANCE'', phase_focus = ''Long runs with elevation, tempo on hills''\<rparr>
      else if current_week_of_plan \<le> 18 then
        \<lparr>phase = ''RACE SIMULATION'', phase_focus = ''Race-pace efforts, practice nutrition''\<rparr>
      else
        \<lparr>phase = ''TAPER'', phase_focus = ''Maintain intensity, reduce volume''\<rparr>)"

record evaluation =
  ev_marathon :: marathon_stats
  ev_recovery :: status
  ev_four_weeks :: four_week_stats
  ev_last_week :: week_stats
  ev_plan :: plan_comparison
  ev_assessment :: assessment
  ev_hr :: hr_stats
  ev_countdown :: countdown
  ev_phase :: phase_info
  ev_chart :: chart_data

text \<open>The method itself. \<open>now\<close> stands for the value of \<open>datetime.now()\<close> that the method
  reads. The result is the error raised or the values handed to the template, together with
  the store the call leaves behind.\<close>

definition generate_html_report ::
    "analyzer \<Rightarrow> int \<Rightarrow> int \<Rightarrow> store \<Rightarrow> (py_error + evaluation) \<times> store" where
  "generate_html_report self current_week_of_plan now h =
     (let (running, h1) = get_running_data self h;
          rf = h1 ! running;
          ms = post_marathon_block (marathon_date self) (rows rf);
          rc = recovery_block (weeks_since ms);
          fw = four_week_block (rows rf);
          lw = last_week_block (rows rf);
          pc = plan_block current_week_of_plan lw;
          asm = assessment_block (dist_pct pc) (elev_pct pc);
          hs = hr_block rf;
          cd = countdown_block (race_date self) now;
          ph = phase_block current_week_of_plan
      in case get_chart_data self h1 of
           (Inl e, h2) \<Rightarrow> (Inl e, h2)
         | (Inr chart, h2) \<Rightarrow>
             (Inr \<lparr>ev_marathon = ms, ev_recovery = rc, ev_four_weeks = fw, ev_last_week = lw,
                   ev_plan = pc, ev_assessment = asm, ev_hr = hs, ev_countdown = cd,
                   ev_phase = ph, ev_chart = chart\<rparr>, h2))"

subsection \<open>Notions used in the statements\<close>

text \<open>The real number a finite float denotes (0 for the special values), and the sum of a
  column read that way.\<close>

definition finite_float :: "pyfloat \<Rightarrow> bool" where
  "finite_float x = (case x of Fin _ \<Rightarrow> True | _ \<Rightarrow> False)"

definition fin_val :: "pyfloat \<Rightarrow> real" where
  "fin_val x = (case x of Fin r \<Rightarrow> r | _ \<Rightarrow> 0)"

definition real_sum :: "pyfloat list \<Rightarrow> real" where
  "real_sum xs = sum_list (map fin_val xs)"

text \<open>A running activity with the given date, distance, ascent, heart rate and training
  effect, for the examples.\<close>

definition run_row :: "int \<Rightarrow> pyfloat \<Rightarrow> pyfloat \<Rightarrow> pyfloat \<Rightarrow> pyfloat \<Rightarrow> row" where
  "run_row d km asc hr te =
     \<lparr>Date = d, Activity_Type = ''Running'', Distance = km, Calories = Fin 0,
      Time_Minutes = Fin 0, Total_Ascent = asc, Total_Descent = Fin 0,
      Avg_HR = hr, Max_HR = hr, Aerobic_TE = te, Week = None\<rparr>"

text \<open>Whether a text, blanks aside, starts with a minus sign.\<close>

definition leading_minus :: "string \<Rightarrow> bool" where
  "leading_minus s = (case strip s of [] \<Rightarrow> False | c # _ \<Rightarrow> c = CHR ''-'')"

text \<open>A running activity as exported, with the given date and the texts of its distance,
  calories and duration, for the examples.\<close>

definition raw_run :: "int \<Rightarrow> string \<Rightarrow> string \<Rightarrow> string \<Rightarrow> raw_row" where
  "raw_run d km kcal t =
     \<lparr>raw_Date = d, raw_Activity_Type = ''Running'', raw_Distance = km, raw_Calories = kcal,
      raw_Time = Some t, raw_Total_Ascent = NaN, raw_Total_Descent = NaN,
      raw_Avg_HR = NaN, raw_Max_HR = NaN, raw_Aerobic_TE = NaN\<rparr>"

section \<open>Properties\<close>

subsection \<open>Duration to minutes\<close>

lemmas parse_defs = py_int_def py_float_def strip_def is_space_def digit_val_def nat_of_digits_def
  is_digit_def drop_underscores_def parse_unsigned_def parse_decimal_def parse_exponent_def
  scale10_def lower_def



subsection \<open>Classifications\<close>

text \<open>
  Claim C2. For every pair of percentages the adherence label is \<open>ON TRACK\<close> exactly when
  \<open>dist_pct \<ge> 90\<close> and \<open>elev_pct \<ge> 80\<close>; otherwise \<open>SLIGHTLY BEHIND\<close> exactly when
  \<open>dist_pct \<ge> 75\<close>; otherwise \<open>BEHIND TARGET\<close>. The bounds are closed: 90 with 80 is
  \<open>ON TRACK\<close>, and 89.9 goes on to the test against 75 (which it passes) whatever the
  elevation percentage. Stated for all floats (a comparison with \<open>nan\<close> is false) and, for
  finite ones, in terms of the order of the reals.
\<close>

theorem assessment_classification:
  "(assessment_label (assessment_block d e) = ''ON TRACK'' \<longleftrightarrow> fge d (Fin 90) \<and> fge e (Fin 80))
   \<and> (assessment_label (assessment_block d e) = ''SLIGHTLY BEHIND''
        \<longleftrightarrow> \<not> (fge d (Fin 90) \<and> fge e (Fin 80)) \<and> fge d (Fin 75))
   \<and> (assessment_label (assessment_block d e) = ''BEHIND TARGET''
        \<longleftrightarrow> \<not> (fge d (Fin 90) \<and> fge e (Fin 80)) \<and> \<not> fge d (Fin 75))
   \<and> (assessment_label (assessment_block (Fin x) (Fin y)) = ''ON TRACK'' \<longleftrightarrow> 90 \<le> x \<and> 80 \<le> y)
   \<and> (assessment_label (assessment_block (Fin x) (Fin y)) = ''SLIGHTLY BEHIND''
        \<longleftrightarrow> \<not> (90 \<le> x \<and> 80 \<le> y) \<and> 75 \<le> x)
   \<and> (assessment_label (assessment_block (Fin x) (Fin y)) = ''BEHIND TARGET'' \<longleftrightarrow> x < 75)
   \<and> assessment_label (assessment_block (Fin 90) (Fin 80)) = ''ON TRACK''
   \<and> assessment_label (assessment_block (Fin 89.9) e) = ''SLIGHTLY BEHIND''"
  by (auto simp: assessment_block_def)

theorem assessment_classification_witness:
  "assessment_label (assessment_block (Fin 95) (Fin 85)) = ''ON TRACK''
   \<and> assessment_label (assessment_block (Fin 95) (Fin 79)) = ''SLIGHTLY BEHIND''
   \<and> assessment_label (assessment_block (Fin 74.9) (Fin 100)) = ''BEHIND TARGET''
   \<and> assessment_label (assessment_block NaN (Fin 100)) = ''BEHIND TARGET''"
  using assessment_classification [of "Fin 95" "Fin 85" 95 85]
    assessment_classification [of "Fin 95" "Fin 79" 95 79]
    assessment_classification [of "Fin 74.9" "Fin 100" "74.9" 100]
    assessment_classification [of NaN "Fin 100"]
  by simp

text \<open>
  Claim C3. For every real \<open>weeks_since\<close> the recovery label is \<open>EARLY RECOVERY\<close> exactly
  when it is below 2, \<open>RECOVERY PHASE\<close> exactly when it is at least 2 and below 4, and
  \<open>RECOVERED\<close> otherwise. The first two carry the class \<open>warning\<close> (the caution severity),
  the last the class \<open>success\<close> (the normal severity). At exactly 2.0 the label is
  \<open>RECOVERY PHASE\<close>.
\<close>

theorem recovery_classification:
  "(label (recovery_block (Fin w)) = ''EARLY RECOVERY'' \<longleftrightarrow> w < 2)
   \<and> (label (recovery_block (Fin w)) = ''RECOVERY PHASE'' \<longleftrightarrow> 2 \<le> w \<and> w < 4)
   \<and> (label (recovery_block (Fin w)) = ''RECOVERED'' \<longleftrightarrow> 4 \<le> w)
   \<and> (css_class (recovery_block (Fin w)) = ''warning'' \<longleftrightarrow> w < 4)
   \<and> (css_class (recovery_block (Fin w)) = ''success'' \<longleftrightarrow> 4 \<le> w)
   \<and> recovery_block (Fin 2.0) = \<lparr>label = ''RECOVERY PHASE'', css_class = ''warning''\<rparr>"
  by (auto simp: recovery_block_def)

theorem recovery_classification_witness:
  "recovery_block (Fin 1.9) = \<lparr>label = ''EARLY RECOVERY'', css_class = ''warning''\<rparr>
   \<and> recovery_block (Fin 3) = \<lparr>label = ''RECOVERY PHASE'', css_class = ''warning''\<rparr>
   \<and> recovery_block (Fin 4) = \<lparr>label = ''RECOVERED'', css_class = ''success''\<rparr>"
proof -
  have "recovery_block (Fin 1.9) = \<lparr>label = label (recovery_block (Fin 1.9)), css_class = css_class (recovery_block (Fin 1.9))\<rparr>"
       "recovery_block (Fin 3) = \<lparr>label = label (recovery_block (Fin 3)), css_class = css_class (recovery_block (Fin 3))\<rparr>"
       "recovery_block (Fin 4) = \<lparr>label = label (recovery_block (Fin 4)), css_class = css_class (recovery_block (Fin 4))\<rparr>"
    by simp_all
  then show ?thesis
    using recovery_classification [of "1.9"] recovery_classification [of 3]
      recovery_classification [of 4]
    by simp
qed

subsection \<open>Plan comparison\<close>








subsection \<open>Sums, means, dates and windows\<close>

lemma fadd_commute: "fadd a b = fadd b a"
  by (cases a; cases b) simp_all

lemma fadd_assoc: "fadd (fadd a b) c = fadd a (fadd b c)"
  by (cases a; cases b; cases c) simp_all


lemma foldl_fadd_fin:
  "\<forall>x \<in> set xs. finite_float x \<Longrightarrow> foldl fadd (Fin a) xs = Fin (a + real_sum xs)"
proof (induction xs arbitrary: a)
  case Nil
  then show ?case by (simp add: real_sum_def)
next
  case (Cons x xs)
  then obtain r where x: "x = Fin r" by (cases x) (auto simp: finite_float_def)
  from Cons.prems have "\<forall>y \<in> set xs. finite_float y" by simp
  from Cons.IH [OF this, of "a + r"] show ?case
    using x by (simp add: real_sum_def fin_val_def add.assoc)
qed

lemma filter_not_NaN_fin:
  "\<forall>x \<in> set xs. finite_float x \<Longrightarrow> filter (\<lambda>x. x \<noteq> NaN) xs = xs"
  by (induction xs) (auto simp: finite_float_def)

lemma col_sum_fin:
  "\<forall>x \<in> set xs. finite_float x \<Longrightarrow> col_sum xs = Fin (real_sum xs)"
  using foldl_fadd_fin [of xs 0] by (simp add: col_sum_def filter_not_NaN_fin)



lemma date_max_Max: "rs \<noteq> [] \<Longrightarrow> date_max rs = Some (Max (Date ` set rs))"
  by (cases rs) (simp_all add: date_max_def Max.set_eq_fold [symmetric])

lemma date_max_Nil: "date_max [] = None"
  by (simp add: date_max_def)


lemma tail_short: "length xs \<le> n \<Longrightarrow> tail n xs = xs"
  by (simp add: tail_def)

lemma length_tail: "length (tail n xs) = min n (length xs)"
  by (simp add: tail_def)

lemma take_append_tail: "take (length xs - n) xs @ tail n xs = xs"
  by (simp add: tail_def)

lemma tail_most_recent:
  assumes "sorted (map Date xs)" "a \<in> set (take (length xs - n) xs)" "b \<in> set (tail n xs)"
  shows "Date a \<le> Date b"
proof -
  have "sorted (map Date (take (length xs - n) xs @ tail n xs))"
    using assms(1) by (simp only: take_append_tail)
  then show ?thesis
    using assms(2,3) by (auto simp: sorted_append)
qed

subsection \<open>Trailing four weeks\<close>

lemma recent_4wks_Max:
  "recent_4wks running
     = filter (\<lambda>r. Max (Date ` set running) - 28 * ns_per_day \<le> Date r) running"
proof (cases "running = []")
  case True
  then show ?thesis by (simp add: recent_4wks_def)
next
  case False
  then show ?thesis
    by (simp add: recent_4wks_def date_max_Max ts_minus_days_def ts_ge_def timedelta_days_def)
qed

text \<open>
  Claim C7. For every table of running activities, the four-week statistics are taken over
  the rows dated no earlier than 28 days before the latest date, and consist of the total
  distance, the total elevation, the number of rows, the mean distance per run (0 when
  there is no row), and the weekly averages: total distance / 4 and total elevation / 4.
  The divisor is the constant 4; the number of weeks that hold data does not occur. For
  finite column values the totals are the sums over the reals.
\<close>

theorem four_week_statistics:
  "recent_4wks running
     = filter (\<lambda>r. Max (Date ` set running) - 28 * ns_per_day \<le> Date r) running
   \<and> total_distance (four_week_block running) = col_sum (map Distance (recent_4wks running))
   \<and> total_elevation (four_week_block running) = col_sum (map Total_Ascent (recent_4wks running))
   \<and> total_runs (four_week_block running) = length (recent_4wks running)
   \<and> avg_distance (four_week_block running)
       = (if total_runs (four_week_block running) = 0 then Fin 0
          else fdivc (total_distance (four_week_block running))
                 (real (total_runs (four_week_block running))))
   \<and> avg_weekly_dist (four_week_block running) = fdivc (total_distance (four_week_block running)) 4
   \<and> avg_weekly_elev (four_week_block running) = fdivc (total_elevation (four_week_block running)) 4
   \<and> ((\<forall>r \<in> set running. finite_float (Distance r)) \<longrightarrow>
        total_distance (four_week_block running)
          = Fin (real_sum (map Distance (recent_4wks running)))
        \<and> avg_weekly_dist (four_week_block running)
          = Fin (real_sum (map Distance (recent_4wks running)) / 4))
   \<and> ((\<forall>r \<in> set running. finite_float (Total_Ascent r)) \<longrightarrow>
        total_elevation (four_week_block running)
          = Fin (real_sum (map Total_Ascent (recent_4wks running)))
        \<and> avg_weekly_elev (four_week_block running)
          = Fin (real_sum (map Total_Ascent (recent_4wks running)) / 4))"
proof -
  let ?w = "recent_4wks running"
  have sub: "set ?w \<subseteq> set running" by (auto simp: recent_4wks_def)
  have d: "total_distance (four_week_block running) = Fin (real_sum (map Distance ?w))
      \<and> avg_weekly_dist (four_week_block running) = Fin (real_sum (map Distance ?w) / 4)"
    if "\<forall>r \<in> set running. finite_float (Distance r)"
  proof -
    from that sub have "\<forall>x \<in> set (map Distance ?w). finite_float x" by auto
    then have "col_sum (map Distance ?w) = Fin (real_sum (map Distance ?w))"
      by (rule col_sum_fin)
    then show ?thesis by (simp add: four_week_block_def Let_def)
  qed
  have e: "total_elevation (four_week_block running) = Fin (real_sum (map Total_Ascent ?w))
      \<and> avg_weekly_elev (four_week_block running) = Fin (real_sum (map Total_Ascent ?w) / 4)"
    if "\<forall>r \<in> set running. finite_float (Total_Ascent r)"
  proof -
    from that sub have "\<forall>x \<in> set (map Total_Ascent ?w). finite_float x" by auto
    then have "col_sum (map Total_Ascent ?w) = Fin (real_sum (map Total_Ascent ?w))"
      by (rule col_sum_fin)
    then show ?thesis by (simp add: four_week_block_def Let_def)
  qed
  have basic:
    "total_distance (four_week_block running) = col_sum (map Distance ?w)"
    "total_elevation (four_week_block running) = col_sum (map Total_Ascent ?w)"
    "total_runs (four_week_block running) = length ?w"
    "avg_distance (four_week_block running)
       = (if total_runs (four_week_block running) = 0 then Fin 0
          else fdivc (total_distance (four_week_block running))
                 (real (total_runs (four_week_block running))))"
    "avg_weekly_dist (four_week_block running) = fdivc (total_distance (four_week_block running)) 4"
    "avg_weekly_elev (four_week_block running) = fdivc (total_elevation (four_week_block running)) 4"
    by (simp_all add: four_week_block_def Let_def)
  show ?thesis
    using recent_4wks_Max [of running] basic d e by blast
qed

text \<open>Three runs: one 30 days before the latest, two in the latest week.\<close>

theorem four_week_statistics_witness:
  "recent_4wks [run_row 0 (Fin 5) (Fin 50) NaN NaN,
                run_row (29 * ns_per_day) (Fin 10) (Fin 100) NaN NaN,
                run_row (30 * ns_per_day) (Fin 12) (Fin 200) NaN NaN]
     = [run_row (29 * ns_per_day) (Fin 10) (Fin 100) NaN NaN,
        run_row (30 * ns_per_day) (Fin 12) (Fin 200) NaN NaN]
   \<and> four_week_block [run_row 0 (Fin 5) (Fin 50) NaN NaN,
                run_row (29 * ns_per_day) (Fin 10) (Fin 100) NaN NaN,
                run_row (30 * ns_per_day) (Fin 12) (Fin 200) NaN NaN]
     = \<lparr>total_distance = Fin 22, total_elevation = Fin 300, total_runs = 2,
        avg_distance = Fin 11, avg_weekly_dist = Fin (22 / 4), avg_weekly_elev = Fin 75\<rparr>"
proof -
  let ?rs = "[run_row 0 (Fin 5) (Fin 50) NaN NaN,
                run_row (29 * ns_per_day) (Fin 10) (Fin 100) NaN NaN,
                run_row (30 * ns_per_day) (Fin 12) (Fin 200) NaN NaN]"
  have w: "recent_4wks ?rs = [run_row (29 * ns_per_day) (Fin 10) (Fin 100) NaN NaN,
        run_row (30 * ns_per_day) (Fin 12) (Fin 200) NaN NaN]"
    by (simp add: recent_4wks_def date_max_def ts_minus_days_def ts_ge_def timedelta_days_def
        run_row_def ns_per_day_def)
  have f: "\<forall>r \<in> set ?rs. finite_float (Distance r)" "\<forall>r \<in> set ?rs. finite_float (Total_Ascent r)"
    by (simp_all add: run_row_def finite_float_def)
  have eq: "four_week_block ?rs
      = \<lparr>total_distance = total_distance (four_week_block ?rs),
         total_elevation = total_elevation (four_week_block ?rs),
         total_runs = total_runs (four_week_block ?rs),
         avg_distance = avg_distance (four_week_block ?rs),
         avg_weekly_dist = avg_weekly_dist (four_week_block ?rs),
         avg_weekly_elev = avg_weekly_elev (four_week_block ?rs)\<rparr>"
    by simp
  have s: "real_sum (map Distance (recent_4wks ?rs)) = 22"
     "real_sum (map Total_Ascent (recent_4wks ?rs)) = 300"
    unfolding w by (simp_all add: real_sum_def fin_val_def run_row_def)
  have l: "length (recent_4wks ?rs) = 2" unfolding w by simp
  note T = four_week_statistics [of ?rs]
  from T f have td: "total_distance (four_week_block ?rs)
      = Fin (real_sum (map Distance (recent_4wks ?rs)))"
    and wd: "avg_weekly_dist (four_week_block ?rs)
      = Fin (real_sum (map Distance (recent_4wks ?rs)) / 4)"
    and te: "total_elevation (four_week_block ?rs)
      = Fin (real_sum (map Total_Ascent (recent_4wks ?rs)))"
    and we: "avg_weekly_elev (four_week_block ?rs)
      = Fin (real_sum (map Total_Ascent (recent_4wks ?rs)) / 4)"
    by blast+
  from T have tr: "total_runs (four_week_block ?rs) = length (recent_4wks ?rs)"
    and ad: "avg_distance (four_week_block ?rs)
       = (if total_runs (four_week_block ?rs) = 0 then Fin 0
          else fdivc (total_distance (four_week_block ?rs))
                 (real (total_runs (four_week_block ?rs))))"
    by blast+
  have v: "total_distance (four_week_block ?rs) = Fin 22"
       "total_elevation (four_week_block ?rs) = Fin 300"
       "total_runs (four_week_block ?rs) = 2"
       "avg_weekly_dist (four_week_block ?rs) = Fin (22 / 4)"
       "avg_weekly_elev (four_week_block ?rs) = Fin 75"
    by (simp_all only: td wd te we tr s l) simp_all
  have v6: "avg_distance (four_week_block ?rs) = Fin 11"
    by (subst ad) (simp only: v, simp)
  show ?thesis
    by (rule conjI [OF w]) (subst eq, simp only: v v6)
qed

subsection \<open>Heart-rate and load window\<close>

lemma col_mean_Nil: "col_mean [] = NaN"
  by (simp add: col_mean_def)

text \<open>
  Claim C10. For every table of running activities with fewer than 10 rows, the window
  \<open>tail(10)\<close> is the whole table; in general it holds the last \<open>min 10 n\<close> rows, which in a
  table sorted by date are the most recent ones. With no row at all the window is empty
  and the mean of each of its columns is \<open>nan\<close>; the block has no error result. (The means
  are those of the columns that exist: \<open>avg_hr\<close>, \<open>max_hr\<close> and \<open>avg_te\<close> are these means
  when the table has the column.)
\<close>

theorem heart_rate_window:
  "(length (rows running) < 10 \<longrightarrow> tail 10 (rows running) = rows running)
   \<and> length (tail 10 (rows running)) = min 10 (length (rows running))
   \<and> take (length (rows running) - 10) (rows running) @ tail 10 (rows running) = rows running
   \<and> (sorted (map Date (rows running)) \<longrightarrow>
        (\<forall>a \<in> set (take (length (rows running) - 10) (rows running)).
         \<forall>b \<in> set (tail 10 (rows running)). Date a \<le> Date b))
   \<and> (has_Avg_HR running \<longrightarrow> avg_hr (hr_block running) = col_mean (map Avg_HR (tail 10 (rows running))))
   \<and> (has_Max_HR running \<longrightarrow> max_hr (hr_block running) = col_mean (map Max_HR (tail 10 (rows running))))
   \<and> (has_Aerobic_TE running \<longrightarrow>
        avg_te (hr_block running) = col_mean (map Aerobic_TE (tail 10 (rows running))))
   \<and> (rows running = [] \<longrightarrow>
        tail 10 (rows running) = []
        \<and> col_mean (map Avg_HR (tail 10 (rows running))) = NaN
        \<and> col_mean (map Max_HR (tail 10 (rows running))) = NaN
        \<and> col_mean (map Aerobic_TE (tail 10 (rows running))) = NaN
        \<and> (has_Avg_HR running \<longrightarrow> avg_hr (hr_block running) = NaN)
        \<and> (has_Max_HR running \<longrightarrow> max_hr (hr_block running) = NaN)
        \<and> (has_Aerobic_TE running \<longrightarrow> avg_te (hr_block running) = NaN))"
proof -
  let ?rs = "rows running"
  have 1: "tail 10 ?rs = ?rs" if "length ?rs < 10"
    using that by (simp add: tail_short)
  have 2: "\<forall>a \<in> set (take (length ?rs - 10) ?rs). \<forall>b \<in> set (tail 10 ?rs). Date a \<le> Date b"
    if "sorted (map Date ?rs)"
    using that tail_most_recent by blast
  have 3: "avg_hr (hr_block running) = col_mean (map Avg_HR (tail 10 ?rs))" if "has_Avg_HR running"
    using that by (simp add: hr_block_def Let_def split: prod.splits)
  have 4: "max_hr (hr_block running) = col_mean (map Max_HR (tail 10 ?rs))" if "has_Max_HR running"
    using that by (simp add: hr_block_def Let_def split: prod.splits)
  have 5: "avg_te (hr_block running) = col_mean (map Aerobic_TE (tail 10 ?rs))"
    if "has_Aerobic_TE running"
    using that by (simp add: hr_block_def Let_def split: prod.splits)
  have 6: "tail 10 ?rs = []" if "?rs = []"
    using that by (simp add: tail_def)
  have 7: "col_mean (map f (tail 10 ?rs)) = NaN" if "?rs = []" for f :: "row \<Rightarrow> pyfloat"
    using that by (simp add: tail_def col_mean_Nil)
  show ?thesis
    using 1 2 3 4 5 6 7 length_tail [of 10 ?rs] take_append_tail [of ?rs 10]
    by (intro conjI impI) simp_all
qed

theorem heart_rate_window_witness:
  "tail 10 [run_row 0 (Fin 5) (Fin 0) (Fin 150) (Fin 3), run_row 1 (Fin 6) (Fin 0) (Fin 160) (Fin 4)]
     = [run_row 0 (Fin 5) (Fin 0) (Fin 150) (Fin 3), run_row 1 (Fin 6) (Fin 0) (Fin 160) (Fin 4)]
   \<and> avg_hr (hr_block \<lparr>rows = [run_row 0 (Fin 5) (Fin 0) (Fin 150) (Fin 3),
                                run_row 1 (Fin 6) (Fin 0) (Fin 160) (Fin 4)],
                        has_Avg_HR = True, has_Max_HR = True, has_Aerobic_TE = True\<rparr>) = Fin 155
   \<and> avg_hr (hr_block \<lparr>rows = [], has_Avg_HR = True, has_Max_HR = True,
                        has_Aerobic_TE = True\<rparr>) = NaN
   \<and> max_hr (hr_block \<lparr>rows = [], has_Avg_HR = True, has_Max_HR = True,
                        has_Aerobic_TE = True\<rparr>) = NaN
   \<and> avg_te (hr_block \<lparr>rows = [], has_Avg_HR = True, has_Max_HR = True,
                        has_Aerobic_TE = True\<rparr>) = NaN"
proof -
  let ?rs = "[run_row 0 (Fin 5) (Fin 0) (Fin 150) (Fin 3), run_row 1 (Fin 6) (Fin 0) (Fin 160) (Fin 4)]"
  let ?f = "\<lparr>rows = ?rs, has_Avg_HR = True, has_Max_HR = True, has_Aerobic_TE = True\<rparr>"
  let ?e = "\<lparr>rows = [] :: row list, has_Avg_HR = True, has_Max_HR = True, has_Aerobic_TE = True\<rparr>"
  have m: "col_mean (map Avg_HR ?rs) = Fin 155"
    by (simp add: col_mean_def col_sum_def run_row_def)
  have fl: "length (rows ?f) < 10" "has_Avg_HR ?f" "rows ?f = ?rs" by simp_all
  have el: "rows ?e = []" "has_Avg_HR ?e" "has_Max_HR ?e" "has_Aerobic_TE ?e" by simp_all
  from heart_rate_window [of ?f] fl(1,2) have "tail 10 (rows ?f) = rows ?f"
    and "avg_hr (hr_block ?f) = col_mean (map Avg_HR (tail 10 (rows ?f)))"
    by blast+
  then have a: "tail 10 ?rs = ?rs" and b: "avg_hr (hr_block ?f) = Fin 155"
    by (simp_all only: fl(3) m)
  from heart_rate_window [of ?e] el have c: "avg_hr (hr_block ?e) = NaN"
    "max_hr (hr_block ?e) = NaN" "avg_te (hr_block ?e) = NaN"
    by blast+
  show ?thesis
    using a b c by blast
qed

subsection \<open>Training load\<close>

lemma load_block_cases:
  "load_block (Fin m) =
     (if 4 < m then (''HIGH LOAD'', ''danger'')
      else if 3 < m then (''MODERATE LOAD'', ''success'')
      else (''LOW LOAD'', ''warning''))"
  by (simp add: load_block_def fgt_def)

lemma hr_block_present:
  "has_Aerobic_TE running \<Longrightarrow>
   (load_status (hr_block running), load_class (hr_block running))
     = load_block (col_mean (map Aerobic_TE (tail 10 (rows running))))
   \<and> avg_te (hr_block running) = col_mean (map Aerobic_TE (tail 10 (rows running)))"
  by (simp add: hr_block_def Let_def split: prod.splits)

lemma hr_block_absent:
  "\<not> has_Aerobic_TE running \<Longrightarrow>
   load_status (hr_block running) = ''N/A'' \<and> load_class (hr_block running) = ''secondary''
   \<and> avg_te (hr_block running) = Fin 0"
  by (simp add: hr_block_def Let_def)

lemma load_block_not_NA: "fst (load_block te) \<noteq> ''N/A''"
  by (simp add: load_block_def)

text \<open>
  Claim C5, as the code has it. When the table has the column \<open>Aerobic TE\<close> and the mean of
  the column over the last 10 rows is a number \<open>m\<close>, the load status is \<open>HIGH LOAD\<close>
  (class \<open>danger\<close>) exactly when \<open>m > 4.0\<close>, \<open>MODERATE LOAD\<close> (class \<open>success\<close>) exactly when
  \<open>3.0 < m \<le> 4.0\<close>, and \<open>LOW LOAD\<close> (class \<open>warning\<close>) otherwise. The status is \<open>N/A\<close> with
  the neutral class \<open>secondary\<close> exactly when the table has no such column; the test is
  the presence of the column, not of values in it. The block has no error result: the
  mean of no values is \<open>nan\<close>, not a division by zero.
\<close>

theorem load_classification:
  "(has_Aerobic_TE running \<and> col_mean (map Aerobic_TE (tail 10 (rows running))) = Fin m \<longrightarrow>
      avg_te (hr_block running) = Fin m
      \<and> (load_status (hr_block running) = ''HIGH LOAD'' \<longleftrightarrow> 4 < m)
      \<and> (load_status (hr_block running) = ''MODERATE LOAD'' \<longleftrightarrow> 3 < m \<and> m \<le> 4)
      \<and> (load_status (hr_block running) = ''LOW LOAD'' \<longleftrightarrow> m \<le> 3)
      \<and> (load_class (hr_block running) = ''danger'' \<longleftrightarrow> 4 < m)
      \<and> (load_class (hr_block running) = ''success'' \<longleftrightarrow> 3 < m \<and> m \<le> 4)
      \<and> (load_class (hr_block running) = ''warning'' \<longleftrightarrow> m \<le> 3))
   \<and> (\<not> has_Aerobic_TE running \<longrightarrow>
      load_status (hr_block running) = ''N/A'' \<and> load_class (hr_block running) = ''secondary''
      \<and> avg_te (hr_block running) = Fin 0)
   \<and> (load_status (hr_block running) = ''N/A'' \<longleftrightarrow> \<not> has_Aerobic_TE running)"
proof -
  have 1: "avg_te (hr_block running) = Fin m
      \<and> (load_status (hr_block running) = ''HIGH LOAD'' \<longleftrightarrow> 4 < m)
      \<and> (load_status (hr_block running) = ''MODERATE LOAD'' \<longleftrightarrow> 3 < m \<and> m \<le> 4)
      \<and> (load_status (hr_block running) = ''LOW LOAD'' \<longleftrightarrow> m \<le> 3)
      \<and> (load_class (hr_block running) = ''danger'' \<longleftrightarrow> 4 < m)
      \<and> (load_class (hr_block running) = ''success'' \<longleftrightarrow> 3 < m \<and> m \<le> 4)
      \<and> (load_class (hr_block running) = ''warning'' \<longleftrightarrow> m \<le> 3)"
    if "has_Aerobic_TE running" "col_mean (map Aerobic_TE (tail 10 (rows running))) = Fin m"
  proof -
    from hr_block_present [OF that(1)] that(2)
    have "(load_status (hr_block running), load_class (hr_block running)) = load_block (Fin m)"
      and "avg_te (hr_block running) = Fin m" by simp_all
    then show ?thesis
      by (auto simp: load_block_cases split: if_splits)
  qed
  have 2: "load_status (hr_block running) = ''N/A'' \<longleftrightarrow> \<not> has_Aerobic_TE running"
  proof (cases "has_Aerobic_TE running")
    case True
    from hr_block_present [OF True]
    have "load_status (hr_block running)
        = fst (load_block (col_mean (map Aerobic_TE (tail 10 (rows running)))))"
      by (metis fst_conv)
    with True load_block_not_NA show ?thesis by simp
  next
    case False
    with hr_block_absent show ?thesis by simp
  qed
  show ?thesis using 1 2 hr_block_absent by blast
qed

theorem load_classification_witness:
  "load_status (hr_block \<lparr>rows = [run_row 0 (Fin 5) (Fin 0) (Fin 150) (Fin 4.5)],
       has_Avg_HR = True, has_Max_HR = True, has_Aerobic_TE = True\<rparr>) = ''HIGH LOAD''
   \<and> load_status (hr_block \<lparr>rows = [run_row 0 (Fin 5) (Fin 0) (Fin 150) (Fin 4.5)],
       has_Avg_HR = True, has_Max_HR = True, has_Aerobic_TE = False\<rparr>) = ''N/A''
   \<and> load_class (hr_block \<lparr>rows = [run_row 0 (Fin 5) (Fin 0) (Fin 150) (Fin 4.5)],
       has_Avg_HR = True, has_Max_HR = True, has_Aerobic_TE = False\<rparr>) = ''secondary''"
proof -
  let ?rs = "[run_row 0 (Fin 5) (Fin 0) (Fin 150) (Fin 4.5)]"
  let ?f = "\<lparr>rows = ?rs, has_Avg_HR = True, has_Max_HR = True, has_Aerobic_TE = True\<rparr>"
  let ?g = "\<lparr>rows = ?rs, has_Avg_HR = True, has_Max_HR = True, has_Aerobic_TE = False\<rparr>"
  have m: "col_mean (map Aerobic_TE (tail 10 (rows ?f))) = Fin 4.5"
    by (simp add: col_mean_def col_sum_def run_row_def tail_def)
  have p: "has_Aerobic_TE ?f" "\<not> has_Aerobic_TE ?g" "(4::real) < 4.5" by simp_all
  from load_classification [of ?f "4.5"] m p(1,3)
  have a: "load_status (hr_block ?f) = ''HIGH LOAD''" by blast
  from load_classification [of ?g] p(2)
  have b: "load_status (hr_block ?g) = ''N/A''" "load_class (hr_block ?g) = ''secondary''"
    by blast+
  show ?thesis using a b by blast
qed

text \<open>
  The claim as first stated also promises \<open>N/A\<close> for a column that is present but holds no
  value. There the mean is \<open>nan\<close>, both comparisons are false, and the status is
  \<open>LOW LOAD\<close>:
\<close>

theorem load_status_empty_column:
  "has_Aerobic_TE \<lparr>rows = [run_row 0 (Fin 5) (Fin 0) (Fin 150) NaN],
       has_Avg_HR = True, has_Max_HR = True, has_Aerobic_TE = True\<rparr>
   \<and> map Aerobic_TE (rows \<lparr>rows = [run_row 0 (Fin 5) (Fin 0) (Fin 150) NaN],
       has_Avg_HR = True, has_Max_HR = True, has_Aerobic_TE = True\<rparr>) = [NaN]
   \<and> hr_block \<lparr>rows = [run_row 0 (Fin 5) (Fin 0) (Fin 150) NaN],
       has_Avg_HR = True, has_Max_HR = True, has_Aerobic_TE = True\<rparr>
     = \<lparr>avg_hr = Fin 150, max_hr = Fin 150, avg_te = NaN, load_status = ''LOW LOAD'',
        load_class = ''warning''\<rparr>
   \<and> ''LOW LOAD'' \<noteq> ''N/A''"
  by (simp add: hr_block_def Let_def load_block_def fgt_def col_mean_def col_sum_def
      run_row_def tail_def)

subsection \<open>Normalized distance and calories\<close>

lemma astype_float_Inr:
  "astype_float ts = Inr vs \<Longrightarrow>
   length vs = length ts \<and> (\<forall>i < length ts. py_float (ts ! i) = Inr (vs ! i))"
proof (induction ts arbitrary: vs)
  case Nil
  then show ?case by simp
next
  case (Cons t ts)
  from Cons.prems obtain v vs' where v: "py_float t = Inr v" and vs': "astype_float ts = Inr vs'"
    and eq: "vs = v # vs'"
    by (auto split: sum.splits)
  from Cons.IH [OF vs'] have len: "length vs' = length ts"
    and nth: "\<forall>i < length ts. py_float (ts ! i) = Inr (vs' ! i)" by simp_all
  show ?case
  proof (intro conjI allI impI)
    show "length vs = length (t # ts)" using eq len by simp
  next
    fix i assume "i < length (t # ts)"
    then show "py_float ((t # ts) ! i) = Inr (vs ! i)"
      using v nth eq by (cases i) simp_all
  qed
qed

lemma scale10_nonneg: "0 \<le> scale10 m e"
  by (simp add: scale10_def)

lemma parse_unsigned_nonneg:
  "parse_unsigned s = Some v \<Longrightarrow> v = NaN \<or> fge v (Fin 0)"
  by (auto simp: parse_unsigned_def parse_decimal_def Let_def scale10_nonneg
      split: if_splits option.splits)

lemma drop_underscores_head:
  "drop_underscores s = Some t \<Longrightarrow> s = c # cs \<Longrightarrow> \<exists>ts. t = c # ts"
  by (auto simp: drop_underscores_def is_digit_def split: if_splits)

lemma drop_underscores_Nil: "drop_underscores [] = Some []"
  by (simp add: drop_underscores_def)

lemma py_float_nonneg:
  assumes "py_float s = Inr v" "\<not> leading_minus s"
  shows "v = NaN \<or> fge v (Fin 0)"
proof -
  from assms(1) obtain t where t: "drop_underscores (strip s) = Some t"
    by (auto simp: py_float_def split: option.splits)
  with assms(1) obtain c cs where tc: "t = c # cs"
    by (cases t) (auto simp: py_float_def)
  have "strip s \<noteq> []" using t tc by (auto simp: drop_underscores_Nil)
  then obtain c' cs' where s: "strip s = c' # cs'" by (cases "strip s") auto
  from drop_underscores_head [OF t s] tc have "c = c'" by simp
  with assms(2) s have nm: "c \<noteq> CHR ''-''" by (simp add: leading_minus_def)
  from assms(1) t tc nm have "parse_unsigned cs = Some v \<or> parse_unsigned (c # cs) = Some v"
    by (auto simp: py_float_def split: if_splits option.splits)
  then show ?thesis using parse_unsigned_nonneg by blast
qed

lemma no_comma_left: "CHR '','' \<notin> set (remove_commas txt)"
  by (simp add: remove_commas_def)

lemma clean_data_Inr:
  assumes "clean_data f = Inr g"
  obtains ds cs where
    "astype_float (map (\<lambda>r. remove_commas (raw_Distance r)) (rows f)) = Inr ds"
    "astype_float (map (\<lambda>r. remove_commas (raw_Calories r)) (rows f)) = Inr cs"
    "rows g = map (\<lambda>(r, d, c). clean_row r d c) (zip (rows f) (zip ds cs))"
  using assms by (auto simp: clean_data_def split: sum.splits)

text \<open>
  Claim C6, as the code has it. For every table that \<open>_clean_data\<close> accepts, every
  normalized distance and calorie value is the float that \<open>float\<close> reads from the cell's
  text with all commas removed, so no comma reaches the conversion; and the value is
  non-negative whenever that text does not start with a minus sign, unless it is \<open>nan\<close>.
  The code has no check of the sign.
\<close>

theorem normalized_distance_calories:
  assumes "clean_data f = Inr g"
  shows "length (rows g) = length (rows f)
    \<and> (\<forall>i < length (rows f).
         py_float (remove_commas (raw_Distance (rows f ! i))) = Inr (Distance (rows g ! i))
         \<and> py_float (remove_commas (raw_Calories (rows f ! i))) = Inr (Calories (rows g ! i))
         \<and> CHR '','' \<notin> set (remove_commas (raw_Distance (rows f ! i)))
         \<and> CHR '','' \<notin> set (remove_commas (raw_Calories (rows f ! i)))
         \<and> (\<not> leading_minus (remove_commas (raw_Distance (rows f ! i))) \<longrightarrow>
              Distance (rows g ! i) = NaN \<or> fge (Distance (rows g ! i)) (Fin 0))
         \<and> (\<not> leading_minus (remove_commas (raw_Calories (rows f ! i))) \<longrightarrow>
              Calories (rows g ! i) = NaN \<or> fge (Calories (rows g ! i)) (Fin 0)))"
proof -
  from assms obtain ds cs where
    ds: "astype_float (map (\<lambda>r. remove_commas (raw_Distance r)) (rows f)) = Inr ds" and
    cs: "astype_float (map (\<lambda>r. remove_commas (raw_Calories r)) (rows f)) = Inr cs" and
    g: "rows g = map (\<lambda>(r, d, c). clean_row r d c) (zip (rows f) (zip ds cs))"
    by (rule clean_data_Inr)
  from astype_float_Inr [OF ds] have lds: "length ds = length (rows f)"
    and nds: "\<forall>i < length (rows f). py_float (remove_commas (raw_Distance (rows f ! i))) = Inr (ds ! i)"
    by simp_all
  from astype_float_Inr [OF cs] have lcs: "length cs = length (rows f)"
    and ncs: "\<forall>i < length (rows f). py_float (remove_commas (raw_Calories (rows f ! i))) = Inr (cs ! i)"
    by simp_all
  have len: "length (rows g) = length (rows f)" using g lds lcs by simp
  have row: "Distance (rows g ! i) = ds ! i \<and> Calories (rows g ! i) = cs ! i"
    if "i < length (rows f)" for i
    using that g lds lcs by (simp add: clean_row_def)
  show ?thesis
  proof (intro conjI allI impI)
    show "length (rows g) = length (rows f)" by (rule len)
  next
    fix i assume i: "i < length (rows f)"
    show "py_float (remove_commas (raw_Distance (rows f ! i))) = Inr (Distance (rows g ! i))"
      using nds row i by simp
    show "py_float (remove_commas (raw_Calories (rows f ! i))) = Inr (Calories (rows g ! i))"
      using ncs row i by simp
    show "CHR '','' \<notin> set (remove_commas (raw_Distance (rows f ! i)))" by (rule no_comma_left)
    show "CHR '','' \<notin> set (remove_commas (raw_Calories (rows f ! i)))" by (rule no_comma_left)
  next
    fix i assume i: "i < length (rows f)"
      and m: "\<not> leading_minus (remove_commas (raw_Distance (rows f ! i)))"
    from nds row i have "py_float (remove_commas (raw_Distance (rows f ! i))) = Inr (Distance (rows g ! i))"
      by simp
    then show "Distance (rows g ! i) = NaN \<or> fge (Distance (rows g ! i)) (Fin 0)"
      using m by (rule py_float_nonneg)
  next
    fix i assume i: "i < length (rows f)"
      and m: "\<not> leading_minus (remove_commas (raw_Calories (rows f ! i)))"
    from ncs row i have "py_float (remove_commas (raw_Calories (rows f ! i))) = Inr (Calories (rows g ! i))"
      by simp
    then show "Calories (rows g ! i) = NaN \<or> fge (Calories (rows g ! i)) (Fin 0)"
      using m by (rule py_float_nonneg)
  qed
qed

theorem normalized_distance_calories_witness:
  "clean_data \<lparr>rows = [raw_run 0 ''1,234.5'' ''2,100'' ''1:02:30''],
          has_Avg_HR = False, has_Max_HR = False, has_Aerobic_TE = False\<rparr>
   = Inr \<lparr>rows = [\<lparr>Date = 0, Activity_Type = ''Running'', Distance = Fin 1234.5,
                    Calories = Fin 2100, Time_Minutes = Fin 62.5, Total_Ascent = Fin 0,
                    Total_Descent = Fin 0, Avg_HR = NaN, Max_HR = NaN, Aerobic_TE = NaN,
                    Week = None\<rparr>],
          has_Avg_HR = False, has_Max_HR = False, has_Aerobic_TE = False\<rparr>
   \<and> py_float (remove_commas ''1,234.5'') = Inr (Fin 1234.5)
   \<and> py_float (remove_commas ''2,100'') = Inr (Fin 2100)
   \<and> \<not> leading_minus (remove_commas ''1,234.5'')
   \<and> fge (Fin 1234.5) (Fin 0)"
proof -
  let ?f = "\<lparr>rows = [raw_run 0 ''1,234.5'' ''2,100'' ''1:02:30''],
          has_Avg_HR = False, has_Max_HR = False, has_Aerobic_TE = False\<rparr>"
  let ?g = "\<lparr>rows = [\<lparr>Date = 0, Activity_Type = ''Running'', Distance = Fin 1234.5,
                    Calories = Fin 2100, Time_Minutes = Fin 62.5, Total_Ascent = Fin 0,
                    Total_Descent = Fin 0, Avg_HR = NaN, Max_HR = NaN, Aerobic_TE = NaN,
                    Week = None\<rparr>],
          has_Avg_HR = False, has_Max_HR = False, has_Aerobic_TE = False\<rparr>"
  have e: "clean_data ?f = Inr ?g"
    by (simp add: clean_data_def clean_row_def raw_run_def remove_commas_def fillna0_def
        time_to_minutes_def time_to_minutes_try_def parse_defs)
  have r: "rows ?f ! 0 = raw_run 0 ''1,234.5'' ''2,100'' ''1:02:30''" "0 < length (rows ?f)"
    "Distance (rows ?g ! 0) = Fin 1234.5" "Calories (rows ?g ! 0) = Fin 2100"
    "raw_Distance (raw_run 0 ''1,234.5'' ''2,100'' ''1:02:30'') = ''1,234.5''"
    "raw_Calories (raw_run 0 ''1,234.5'' ''2,100'' ''1:02:30'') = ''2,100''"
    by (simp_all add: raw_run_def)
  have m: "\<not> leading_minus (remove_commas ''1,234.5'')"
    by (simp add: leading_minus_def remove_commas_def strip_def is_space_def)
  from normalized_distance_calories [OF e] r(2)
  have "py_float (remove_commas (raw_Distance (rows ?f ! 0))) = Inr (Distance (rows ?g ! 0))"
    and "py_float (remove_commas (raw_Calories (rows ?f ! 0))) = Inr (Calories (rows ?g ! 0))"
    and "\<not> leading_minus (remove_commas (raw_Distance (rows ?f ! 0))) \<longrightarrow>
              Distance (rows ?g ! 0) = NaN \<or> fge (Distance (rows ?g ! 0)) (Fin 0)"
    by blast+
  then have "py_float (remove_commas ''1,234.5'') = Inr (Fin 1234.5)"
    and "py_float (remove_commas ''2,100'') = Inr (Fin 2100)"
    and "\<not> leading_minus (remove_commas ''1,234.5'') \<longrightarrow> Fin 1234.5 = NaN \<or> fge (Fin 1234.5) (Fin 0)"
    by (simp_all only: r)
  with m e show ?thesis by simp
qed

text \<open>
  The claim as first stated promises a non-negative value for every accepted input. The
  text \<open>-5\<close> is accepted and gives the distance \<open>-5.0\<close>:
\<close>

theorem negative_distance_accepted:
  "clean_data \<lparr>rows = [raw_run 0 ''-5'' ''300'' ''45:00''],
          has_Avg_HR = False, has_Max_HR = False, has_Aerobic_TE = False\<rparr>
   = Inr \<lparr>rows = [\<lparr>Date = 0, Activity_Type = ''Running'', Distance = Fin (- 5),
                    Calories = Fin 300, Time_Minutes = Fin 45, Total_Ascent = Fin 0,
                    Total_Descent = Fin 0, Avg_HR = NaN, Max_HR = NaN, Aerobic_TE = NaN,
                    Week = None\<rparr>],
          has_Avg_HR = False, has_Max_HR = False, has_Aerobic_TE = False\<rparr>
   \<and> \<not> fge (Fin (- 5)) (Fin 0)"
  by (simp add: clean_data_def clean_row_def raw_run_def remove_commas_def fillna0_def
      time_to_minutes_def time_to_minutes_try_def parse_defs)

subsection \<open>The store and the report\<close>

lemma get_running_data_eq:
  "get_running_data self h
     = (length h, h @ [select_rows (\<lambda>r. Activity_Type r = ''Running'') (h ! df self)])"
  by (simp add: get_running_data_def alloc_def)

lemma get_weekly_data_eq:
  "get_weekly_data self lb h =
     (let running = select_rows (\<lambda>r. Activity_Type r = ''Running'') (h ! df self);
          recent = add_Week (select_rows
                     (\<lambda>r. ts_ge (Date r) (ts_minus_days (date_max (rows running)) (lb * 7)))
                     running)
      in (groupby_Week_agg recent, h @ [running, recent]))"
  by (simp add: get_weekly_data_def get_running_data_eq alloc_def Let_def nth_append
      list_update_append)

lemma get_weekly_data_store:
  "\<exists>a b. snd (get_weekly_data self lb h) = h @ [a, b]"
  by (simp add: get_weekly_data_eq Let_def)

lemma get_weekly_data_result:
  "h ! df self = h' ! df self \<Longrightarrow>
   fst (get_weekly_data self lb h) = fst (get_weekly_data self lb h')"
  by (simp add: get_weekly_data_eq Let_def)

lemma get_chart_data_store:
  "\<exists>a b. snd (get_chart_data self h) = h @ [a, b]"
proof -
  obtain a b where s: "snd (get_weekly_data self 8 h) = h @ [a, b]"
    using get_weekly_data_store by blast
  obtain r h' where p: "get_weekly_data self 8 h = (r, h')" by (cases "get_weekly_data self 8 h")
  with s have "h' = h @ [a, b]" by simp
  with p show ?thesis by (cases r) (simp_all add: get_chart_data_def)
qed

lemma get_chart_data_fst:
  "fst (get_chart_data self h) =
     (case fst (get_weekly_data self 8 h) of
        Inl e \<Rightarrow> Inl e
      | Inr weekly \<Rightarrow> Inr \<lparr>weeks = map b_Week weekly, distances = map b_Distance weekly,
                elevations = map b_Total_Ascent weekly\<rparr>)"
  by (cases "get_weekly_data self 8 h") (simp add: get_chart_data_def split: sum.splits)

lemma get_chart_data_result:
  "h ! df self = h' ! df self \<Longrightarrow> fst (get_chart_data self h) = fst (get_chart_data self h')"
  by (simp only: get_chart_data_fst get_weekly_data_result [of h self h'])

lemma generate_html_report_store:
  "\<exists>a b c. snd (generate_html_report self w now h) = h @ [a, b, c]"
proof -
  let ?R = "select_rows (\<lambda>r. Activity_Type r = ''Running'') (h ! df self)"
  obtain a b where s: "snd (get_chart_data self (h @ [?R])) = (h @ [?R]) @ [a, b]"
    using get_chart_data_store by blast
  obtain r h' where p: "get_chart_data self (h @ [?R]) = (r, h')"
    by (cases "get_chart_data self (h @ [?R])")
  with s have "h' = h @ [?R, a, b]" by simp
  with p show ?thesis
    by (cases r) (simp_all add: generate_html_report_def get_running_data_eq Let_def)
qed

lemma generate_html_report_fst:
  "fst (generate_html_report self w now h) =
     (let rf = select_rows (\<lambda>r. Activity_Type r = ''Running'') (h ! df self);
          ms = post_marathon_block (marathon_date self) (rows rf);
          lw = last_week_block (rows rf);
          pc = plan_block w lw
      in case fst (get_chart_data self (h @ [rf])) of
           Inl e \<Rightarrow> Inl e
         | Inr chart \<Rightarrow>
             Inr \<lparr>ev_marathon = ms, ev_recovery = recovery_block (weeks_since ms),
                  ev_four_weeks = four_week_block (rows rf), ev_last_week = lw,
                  ev_plan = pc, ev_assessment = assessment_block (dist_pct pc) (elev_pct pc),
                  ev_hr = hr_block rf, ev_countdown = countdown_block (race_date self) now,
                  ev_phase = phase_block w, ev_chart = chart\<rparr>)"
proof -
  let ?R = "select_rows (\<lambda>r. Activity_Type r = ''Running'') (h ! df self)"
  obtain r h' where p: "get_chart_data self (h @ [?R]) = (r, h')"
    by (cases "get_chart_data self (h @ [?R])")
  then show ?thesis
    by (cases r) (simp_all add: generate_html_report_def get_running_data_eq Let_def)
qed

lemma generate_html_report_result:
  assumes "df self < length h" "df self < length h'" "h ! df self = h' ! df self"
  shows "fst (generate_html_report self w now h) = fst (generate_html_report self w now h')"
proof -
  let ?R = "select_rows (\<lambda>r. Activity_Type r = ''Running'') (h ! df self)"
  have "(h @ [?R]) ! df self = (h' @ [?R]) ! df self"
    using assms by (simp add: nth_append)
  then have "fst (get_chart_data self (h @ [?R])) = fst (get_chart_data self (h' @ [?R]))"
    by (rule get_chart_data_result)
  then show ?thesis
    using assms(3) by (simp add: generate_html_report_fst Let_def)
qed

text \<open>
  Claim C9. For fixed inputs (the table \<open>self.df\<close>, the plan week, the time \<open>now\<close>, the
  marathon date and the race date) two runs of the evaluation give identical results.
  A run leaves every table that existed before it unchanged, \<open>self.df\<close> among them: it
  only adds the copies it works on. Its result depends on the store through \<open>self.df\<close>
  alone, so the second run, which starts in the store the first one left, returns what
  the first returned. (The time is a parameter here; the source reads the clock.)
\<close>

theorem evaluation_deterministic:
  assumes "df self < length h"
  shows "(case generate_html_report self w now h of
            (r1, h1) \<Rightarrow>
              (case generate_html_report self w now h1 of
                 (r2, h2) \<Rightarrow>
                   r1 = r2 \<and> h1 ! df self = h ! df self \<and> h2 ! df self = h ! df self
                   \<and> (\<forall>i < length h. h1 ! i = h ! i \<and> h2 ! i = h ! i)))
         \<and> (\<forall>h'. df self < length h' \<and> h' ! df self = h ! df self \<longrightarrow>
               fst (generate_html_report self w now h') = fst (generate_html_report self w now h))"
proof -
  obtain r1 h1 where g1: "generate_html_report self w now h = (r1, h1)"
    by (cases "generate_html_report self w now h")
  obtain r2 h2 where g2: "generate_html_report self w now h1 = (r2, h2)"
    by (cases "generate_html_report self w now h1")
  from generate_html_report_store [of self w now h] g1
  obtain a b c where h1: "h1 = h @ [a, b, c]" by auto
  from generate_html_report_store [of self w now h1] g2
  obtain a' b' c' where h2: "h2 = h1 @ [a', b', c']" by auto
  have p1: "\<forall>i < length h. h1 ! i = h ! i" using h1 by (simp add: nth_append)
  have p2: "\<forall>i < length h. h2 ! i = h ! i" using h1 h2 by (simp add: nth_append)
  have l1: "df self < length h1" using assms h1 by simp
  have same: "h ! df self = h1 ! df self" using p1 assms by simp
  have "fst (generate_html_report self w now h) = fst (generate_html_report self w now h1)"
    using assms l1 same by (rule generate_html_report_result)
  then have r: "r1 = r2" using g1 g2 by simp
  have ind: "fst (generate_html_report self w now h') = fst (generate_html_report self w now h)"
    if "df self < length h' \<and> h' ! df self = h ! df self" for h'
    using that assms generate_html_report_result [of self h' h w now] by simp
  show ?thesis
    using r p1 p2 assms ind by (simp add: g1 g2)
qed

theorem evaluation_deterministic_witness:
  "fst (generate_html_report
          \<lparr>df = 0, marathon_date = timedelta_days 20373, race_date = timedelta_days 20569\<rparr>
          1 (20405 * ns_per_day)
          [\<lparr>rows = [run_row (20400 * ns_per_day) (Fin 10) (Fin 50) (Fin 150) (Fin 3.5),
                     run_row (20404 * ns_per_day) (Fin 10) (Fin 100) (Fin 148) (Fin 3.0)],
            has_Avg_HR = True, has_Max_HR = True, has_Aerobic_TE = True\<rparr>])
   = fst (generate_html_report
          \<lparr>df = 0, marathon_date = timedelta_days 20373, race_date = timedelta_days 20569\<rparr>
          1 (20405 * ns_per_day)
          (snd (generate_html_report
            \<lparr>df = 0, marathon_date = timedelta_days 20373, race_date = timedelta_days 20569\<rparr>
            1 (20405 * ns_per_day)
            [\<lparr>rows = [run_row (20400 * ns_per_day) (Fin 10) (Fin 50) (Fin 150) (Fin 3.5),
                       run_row (20404 * ns_per_day) (Fin 10) (Fin 100) (Fin 148) (Fin 3.0)],
              has_Avg_HR = True, has_Max_HR = True, has_Aerobic_TE = True\<rparr>])))
   \<and> snd (generate_html_report
          \<lparr>df = 0, marathon_date = timedelta_days 20373, race_date = timedelta_days 20569\<rparr>
          1 (20405 * ns_per_day)
          [\<lparr>rows = [run_row (20400 * ns_per_day) (Fin 10) (Fin 50) (Fin 150) (Fin 3.5),
                     run_row (20404 * ns_per_day) (Fin 10) (Fin 100) (Fin 148) (Fin 3.0)],
            has_Avg_HR = True, has_Max_HR = True, has_Aerobic_TE = True\<rparr>]) ! 0
     = \<lparr>rows = [run_row (20400 * ns_per_day) (Fin 10) (Fin 50) (Fin 150) (Fin 3.5),
                     run_row (20404 * ns_per_day) (Fin 10) (Fin 100) (Fin 148) (Fin 3.0)],
            has_Avg_HR = True, has_Max_HR = True, has_Aerobic_TE = True\<rparr>"
proof -
  let ?S = "\<lparr>df = 0, marathon_date = timedelta_days 20373, race_date = timedelta_days 20569\<rparr>"
  let ?F = "\<lparr>rows = [run_row (20400 * ns_per_day) (Fin 10) (Fin 50) (Fin 150) (Fin 3.5),
                     run_row (20404 * ns_per_day) (Fin 10) (Fin 100) (Fin 148) (Fin 3.0)],
            has_Avg_HR = True, has_Max_HR = True, has_Aerobic_TE = True\<rparr>"
  have v: "df ?S < length [?F]" "df ?S = 0" "[?F] ! 0 = ?F" "(0::nat) < length [?F]" by simp_all
  note T = evaluation_deterministic [OF v(1), of 1 "20405 * ns_per_day"]
  from T have
    "fst (generate_html_report ?S 1 (20405 * ns_per_day) [?F])
       = fst (generate_html_report ?S 1 (20405 * ns_per_day)
               (snd (generate_html_report ?S 1 (20405 * ns_per_day) [?F])))"
    and "snd (generate_html_report ?S 1 (20405 * ns_per_day) [?F]) ! df ?S = [?F] ! df ?S"
    by (simp_all only: case_prod_beta)
  then show ?thesis by (simp only: v(2,3))
qed

text \<open>Four runs in the last seven days, 40 km and 300 m in total, in plan week 1.\<close>

lemma end_to_end_example:
  "fst (generate_html_report
          \<lparr>df = 0, marathon_date = timedelta_days 20373, race_date = timedelta_days 20569\<rparr>
          1 (20405 * ns_per_day)
          [\<lparr>rows = [run_row (20400 * ns_per_day) (Fin 10) (Fin 50) (Fin 150) (Fin 3.5),
                     run_row (20401 * ns_per_day) (Fin 12) (Fin 100) (Fin 152) (Fin 3.2),
                     run_row (20403 * ns_per_day) (Fin 8) (Fin 50) NaN (Fin 2.5),
                     run_row (20404 * ns_per_day) (Fin 10) (Fin 100) (Fin 148) (Fin 3.0)],
            has_Avg_HR = True, has_Max_HR = True, has_Aerobic_TE = True\<rparr>])
   = Inr \<lparr>ev_marathon =
        \<lparr>days_since_marathon = Some 31, weeks_since = Fin (31 / 7),
           post_marathon_runs = 4, post_marathon_distance = Fin 40,
           post_marathon_avg = Fin 10\<rparr>,
        ev_recovery = \<lparr>label = ''RECOVERED'', css_class = ''success''\<rparr>,
        ev_four_weeks =
          \<lparr>total_distance = Fin 40, total_elevation = Fin 300,
             total_runs = 4, avg_distance = Fin 10,
             avg_weekly_dist = Fin 10, avg_weekly_elev = Fin 75\<rparr>,
        ev_last_week =
          \<lparr>week_distance = Fin 40, week_elevation = Fin 300, week_runs = 4\<rparr>,
        ev_plan =
          \<lparr>plan_target = \<lparr>distance = 35, elevation = 200, runs = 4\<rparr>,
             dist_pct = Fin (800 / 7), elev_pct = Fin 150,
             runs_pct = Fin 100\<rparr>,
        ev_assessment =
          \<lparr>assessment_label = ''ON TRACK'', assessment_class = ''success'',
             assessment_icon = Check_Mark\<rparr>,
        ev_hr =
          \<lparr>avg_hr = Fin 150, max_hr = Fin 150, avg_te = Fin (61 / 20),
             load_status = ''MODERATE LOAD'', load_class = ''success''\<rparr>,
        ev_countdown = \<lparr>days_to_race = 164, weeks_to_race = 164 / 7\<rparr>,
        ev_phase =
          \<lparr>phase = ''BASE BUILDING'',
             phase_focus =
               ''Rebuild volume gradually, introduce hill work''\<rparr>,
        ev_chart =
          \<lparr>weeks = [2914, 2915], distances = [Fin 22, Fin 18],
             elevations = [Fin 150, Fin 150]\<rparr>\<rparr>"
  by code_simp

subsection \<open>Weekly buckets\<close>











subsection \<open>The table is kept in date order\<close>

text \<open>\<open>__init__\<close> sorts by date before it cleans, and selecting rows keeps the order: the
  table of running activities that the report works on is sorted by date, which is what
  makes the last rows of it the most recent ones.\<close>

lemma clean_data_dates:
  assumes "clean_data f = Inr g"
  shows "map Date (rows g) = map raw_Date (rows f)"
proof -
  from assms obtain ds cs where
    ds: "astype_float (map (\<lambda>r. remove_commas (raw_Distance r)) (rows f)) = Inr ds" and
    cs: "astype_float (map (\<lambda>r. remove_commas (raw_Calories r)) (rows f)) = Inr cs" and
    g: "rows g = map (\<lambda>(r, d, c). clean_row r d c) (zip (rows f) (zip ds cs))"
    by (rule clean_data_Inr)
  from astype_float_Inr [OF ds] astype_float_Inr [OF cs]
  have len: "length (zip ds cs) = length (rows f)" by simp
  have "map Date (rows g) = map (raw_Date \<circ> fst) (zip (rows f) (zip ds cs))"
    unfolding g by (simp add: clean_row_def case_prod_beta comp_def)
  also have "\<dots> = map raw_Date (map fst (zip (rows f) (zip ds cs)))" by simp
  also have "\<dots> = map raw_Date (rows f)" using len by simp
  finally show ?thesis .
qed

lemma init_date_order:
  assumes "init csv h = Inr (self, h')"
  shows "sorted (map Date (rows (h' ! df self)))"
    and "sorted (map Date (rows (select_rows (\<lambda>r. Activity_Type r = ''Running'') (h' ! df self))))"
proof -
  from assms obtain f where f: "clean_data (sort_values_Date csv) = Inr f"
    and s: "df self = length h" and h': "h' = h @ [f]"
    by (auto simp: init_def alloc_def split: sum.splits)
  have "map Date (rows f) = map raw_Date (sort_key raw_Date (rows csv))"
    using clean_data_dates [OF f] by (simp add: sort_values_Date_def)
  then have "sorted (map Date (rows f))" by simp
  then show a: "sorted (map Date (rows (h' ! df self)))" using s h' by simp
  then show "sorted (map Date (rows (select_rows (\<lambda>r. Activity_Type r = ''Running'') (h' ! df self))))"
    by (simp add: select_rows_def sorted_filter)
qed

end
